theory Spec2Isabelle
  imports Main "HOL-Library.Word" "HOL-Library.Sublist"
begin

unbundle bit_operations_syntax

section \<open>Cherry: the OpenFlow 1.3 session controller and the ProxyARP application\<close>

text \<open>
  The development embeds two Go files:
  \<^item> \<^verbatim>\<open>cherryd/internal/session/of13_controller.go\<close>: the handlers of the
    OpenFlow 1.3 session (\<^verbatim>\<open>OnHello\<close>, \<^verbatim>\<open>OnDescReply\<close>,
    \<^verbatim>\<open>OnPortDescReply\<close>, \<^verbatim>\<open>OnPortStatus\<close>);
  \<^item> \<^verbatim>\<open>cherryd/northbound/app/proxyarp/arp.go\<close>: the ProxyARP packet-in handler.

  Go's \<^verbatim>\<open>error\<close> is modelled by its text: a handler returns \<open>err option\<close>, where
  \<open>None\<close> is \<^verbatim>\<open>nil\<close>. \<^verbatim>\<open>fmt.Errorf("...: %v", err)\<close> prepends its text to the
  text of \<^verbatim>\<open>err\<close>. Calls of the logger have no effect on what the handlers return,
  send or store, and are left out.
\<close>

type_synonym err = string
type_synonym u8 = "8 word"
type_synonym u16 = "16 word"
type_synonym u32 = "32 word"
type_synonym u64 = "64 word"

subsection \<open>Messages and objects of package openflow\<close>

text \<open>
  Modelled from the spec: the types \<^verbatim>\<open>OutPort\<close> and \<^verbatim>\<open>InPort\<close> of package openflow
  are not under src/. A new port object holds no choice yet (the source comments call an
  untouched \<^verbatim>\<open>NewOutPort()\<close> a flood); \<^verbatim>\<open>SetController\<close> and \<^verbatim>\<open>SetValue\<close>
  replace what it holds.
\<close>

datatype out_port = OutUnset | OutController | OutValue u32
datatype in_port = InUnset | InController | InValue u32

definition NewOutPort :: out_port where
  "NewOutPort = OutUnset"

definition NewInPort :: in_port where
  "NewInPort = InUnset"

text \<open>
  Modelled from the spec: the type \<^verbatim>\<open>Action\<close> is not under src/. An action object
  records the output port given to \<^verbatim>\<open>SetOutPort\<close>, if any.
\<close>

record action =
  act_out_port :: "out_port option"

definition new_action :: action where
  "new_action = \<lparr>act_out_port = None\<rparr>"

definition SetOutPort :: "out_port \<Rightarrow> action \<Rightarrow> action" where
  "SetOutPort p a = a\<lparr>act_out_port := Some p\<rparr>"

text \<open>
  Modelled from the spec: the type \<^verbatim>\<open>Instruction\<close> is not under src/. An instruction
  object is kept as the sequence of setter calls made on it since its construction, which
  loses nothing whatever the implementation does with them.
\<close>

datatype inst_call = GotoTable u8 | WriteAction action | ApplyAction action

type_synonym instruction = "inst_call list"

text \<open>
  Modelled from the spec: what an instruction object stands for when its message is
  transmitted. The source reuses one object for the three entries of the HP 2920 chain
  (comments \<^verbatim>\<open>0 -> 100\<close>, \<^verbatim>\<open>100 -> 200\<close>, \<^verbatim>\<open>200 -> Controller\<close>) and the spec has
  table 100 jump to table 200 and table 200 send to the controller: each setter replaces
  what the object held, so the object stands for its latest setter call.
\<close>

definition current_instruction :: "instruction \<Rightarrow> inst_call option" where
  "current_instruction i = (if i = [] then None else Some (last i))"

text \<open>
  Modelled from the spec: the type \<^verbatim>\<open>Match\<close> is not under src/. A match is the list of
  the header fields it constrains (field name and value bytes); \<^verbatim>\<open>NewMatch()\<close> constrains
  none, which is the wildcard (source comment and spec section 4.1).
\<close>

type_synonym match = "(string \<times> u8 list) list"

definition new_match :: match where
  "new_match = []"

definition is_wildcard :: "match \<Rightarrow> bool" where
  "is_wildcard m \<longleftrightarrow> m = []"

datatype flow_command = FlowAdd | FlowModify | FlowDelete

text \<open>
  Modelled from the spec: the type \<^verbatim>\<open>FlowMod\<close> is not under src/. The record has the
  fields that \<^verbatim>\<open>setTableMiss\<close> sets; a new object has Go's zero values. The instruction
  is held by reference (an address of the object store below), as the Go interface value
  holds a pointer.
\<close>

record flow_mod =
  fm_command :: flow_command
  fm_cookie :: u64
  fm_table_id :: u8
  fm_idle_timeout :: u16
  fm_hard_timeout :: u16
  fm_priority :: u16
  fm_match :: "match option"
  fm_instruction :: "nat option"

definition new_flow_mod :: "flow_command \<Rightarrow> flow_mod" where
  "new_flow_mod c = \<lparr>fm_command = c, fm_cookie = 0, fm_table_id = 0, fm_idle_timeout = 0,
     fm_hard_timeout = 0, fm_priority = 0, fm_match = None, fm_instruction = None\<rparr>"

definition SetCookie :: "u64 \<Rightarrow> flow_mod \<Rightarrow> flow_mod" where
  "SetCookie c m = m\<lparr>fm_cookie := c\<rparr>"

definition SetTableID :: "u8 \<Rightarrow> flow_mod \<Rightarrow> flow_mod" where
  "SetTableID t m = m\<lparr>fm_table_id := t\<rparr>"

definition SetIdleTimeout :: "u16 \<Rightarrow> flow_mod \<Rightarrow> flow_mod" where
  "SetIdleTimeout t m = m\<lparr>fm_idle_timeout := t\<rparr>"

definition SetHardTimeout :: "u16 \<Rightarrow> flow_mod \<Rightarrow> flow_mod" where
  "SetHardTimeout t m = m\<lparr>fm_hard_timeout := t\<rparr>"

definition SetPriority :: "u16 \<Rightarrow> flow_mod \<Rightarrow> flow_mod" where
  "SetPriority p m = m\<lparr>fm_priority := p\<rparr>"

definition SetFlowMatch :: "match \<Rightarrow> flow_mod \<Rightarrow> flow_mod" where
  "SetFlowMatch x m = m\<lparr>fm_match := Some x\<rparr>"

definition SetFlowInstruction :: "nat \<Rightarrow> flow_mod \<Rightarrow> flow_mod" where
  "SetFlowInstruction r m = m\<lparr>fm_instruction := Some r\<rparr>"

subsection \<open>Ports and the device\<close>

text \<open>
  Modelled from the spec: the types \<^verbatim>\<open>openflow.Port\<close> and \<^verbatim>\<open>network.Device\<close> are not
  under src/. A reported port has a number and its two status flags; a device has an
  identifier, its default flow-table identifier and its ports by number.
  \<^verbatim>\<open>AddPort\<close> and \<^verbatim>\<open>UpdatePort\<close> store the reported port under its number.
\<close>

record port =
  Number :: u32
  IsPortDown :: bool
  IsLinkDown :: bool

record device =
  dev_id :: string
  flowTableID :: u8
  ports :: "u32 \<rightharpoonup> port"

definition SetFlowTableID :: "u8 \<Rightarrow> device \<Rightarrow> device" where
  "SetFlowTableID t d = d\<lparr>flowTableID := t\<rparr>"

definition AddPort :: "u32 \<Rightarrow> port \<Rightarrow> device \<Rightarrow> device" where
  "AddPort n p d = d\<lparr>ports := (ports d)(n \<mapsto> p)\<rparr>"

definition UpdatePort :: "u32 \<Rightarrow> port \<Rightarrow> device \<Rightarrow> device" where
  "UpdatePort n p d = d\<lparr>ports := (ports d)(n \<mapsto> p)\<rparr>"

subsection \<open>The connection: what is sent, and whether a send fails\<close>

text \<open>
  A send is what a handler hands to the transport: one of the send helpers of package
  session (each is a call that constructs its message and writes it), or a
  \<^verbatim>\<open>w.Write(msg)\<close> of a flow modification. A flow modification is recorded with the
  state its instruction object has when \<^verbatim>\<open>Write\<close> is called: the spec has a send
  complete before the next one is issued, so that is what is transmitted.

  The trace of a connection lists the sends in the order they were issued, each with the
  outcome it returned. Whether a send fails is the transport's choice: it is a parameter,
  a function of the trace so far and of the send.
\<close>

datatype message =
    HELLO
  | SET_CONFIG
  | FEATURES_REQUEST
  | BARRIER_REQUEST
  | REMOVE_ALL_FLOWS
  | DESCRIPTION_REQUEST
  | PORT_DESCRIPTION_REQUEST
  | LLDP string port
  | FLOW_MOD flow_mod instruction

type_synonym trace = "(message \<times> err option) list"

datatype obj_kind = KMatch | KFlowMod | KInstruction | KAction | KPacketOut

text \<open>
  The collaborators of the session: the transport, the message factory (a constructor may
  fail: \<open>Some\<close> is its error), and the constant \<^verbatim>\<open>of13.OFPP_MAX\<close>, which is not under
  src/ and is a parameter.
\<close>

record env =
  transport :: "trace \<Rightarrow> message \<Rightarrow> err option"
  factory :: "obj_kind \<Rightarrow> err option"
  OFPP_MAX :: u32

text \<open>
  The state of one session: the trace of its connection, the store of instruction objects
  with the next free address, and the device of the controller (\<^verbatim>\<open>r.device\<close>, which
  the session sets with \<^verbatim>\<open>setDevice\<close> before it dispatches messages).
\<close>

record sess =
  sent :: trace
  insts :: "nat \<Rightarrow> instruction"
  next_ref :: nat
  dev :: device

definition issue :: "env \<Rightarrow> message \<Rightarrow> sess \<Rightarrow> err option \<times> sess" where
  "issue e m s = (transport e (sent s) m, s\<lparr>sent := sent s @ [(m, transport e (sent s) m)]\<rparr>)"

text \<open>
  Modelled from the spec: the send helpers of package session are not under src/. Each
  is one send of its message (spec section 4.1, steps 1 to 9, and the LLDP frame of a
  port that is up).
\<close>

definition sendHello :: "env \<Rightarrow> sess \<Rightarrow> err option \<times> sess" where
  "sendHello e s = issue e HELLO s"

definition sendSetConfig :: "env \<Rightarrow> sess \<Rightarrow> err option \<times> sess" where
  "sendSetConfig e s = issue e SET_CONFIG s"

definition sendFeaturesRequest :: "env \<Rightarrow> sess \<Rightarrow> err option \<times> sess" where
  "sendFeaturesRequest e s = issue e FEATURES_REQUEST s"

definition sendBarrierRequest :: "env \<Rightarrow> sess \<Rightarrow> err option \<times> sess" where
  "sendBarrierRequest e s = issue e BARRIER_REQUEST s"

definition sendRemovingAllFlows :: "env \<Rightarrow> sess \<Rightarrow> err option \<times> sess" where
  "sendRemovingAllFlows e s = issue e REMOVE_ALL_FLOWS s"

definition sendDescriptionRequest :: "env \<Rightarrow> sess \<Rightarrow> err option \<times> sess" where
  "sendDescriptionRequest e s = issue e DESCRIPTION_REQUEST s"

definition sendPortDescriptionRequest :: "env \<Rightarrow> sess \<Rightarrow> err option \<times> sess" where
  "sendPortDescriptionRequest e s = issue e PORT_DESCRIPTION_REQUEST s"

definition sendLLDP :: "env \<Rightarrow> string \<Rightarrow> port \<Rightarrow> sess \<Rightarrow> err option \<times> sess" where
  "sendLLDP e d p s = issue e (LLDP d p) s"

subsection \<open>The handshake: OnHello\<close>

definition OnHello :: "env \<Rightarrow> sess \<Rightarrow> err option \<times> sess" where
  "OnHello e s0 =
    (case sendHello e s0 of
       (Some err, s1) \<Rightarrow> (Some (''failed to send HELLO: '' @ err), s1)
     | (None, s1) \<Rightarrow>
    (case sendSetConfig e s1 of
       (Some err, s2) \<Rightarrow> (Some (''failed to send SET_CONFIG: '' @ err), s2)
     | (None, s2) \<Rightarrow>
    (case sendFeaturesRequest e s2 of
       (Some err, s3) \<Rightarrow> (Some (''failed to send FEATURE_REQUEST: '' @ err), s3)
     | (None, s3) \<Rightarrow>
    (case sendBarrierRequest e s3 of
       (Some err, s4) \<Rightarrow> (Some (''failed to send BARRIER_REQUEST: '' @ err), s4)
     | (None, s4) \<Rightarrow>
    (case sendRemovingAllFlows e s4 of
       (Some err, s5) \<Rightarrow> (Some (''failed to send FLOW_MOD to remove all flows: '' @ err), s5)
     | (None, s5) \<Rightarrow>
    (case sendBarrierRequest e s5 of
       (Some err, s6) \<Rightarrow> (Some (''failed to send BARRIER_REQUEST: '' @ err), s6)
     | (None, s6) \<Rightarrow>
    (case sendDescriptionRequest e s6 of
       (Some err, s7) \<Rightarrow> (Some (''failed to send DESCRIPTION_REQUEST: '' @ err), s7)
     | (None, s7) \<Rightarrow>
    (case sendBarrierRequest e s7 of
       (Some err, s8) \<Rightarrow> (Some (''failed to send BARRIER_REQUEST: '' @ err), s8)
     | (None, s8) \<Rightarrow>
    (case sendPortDescriptionRequest e s8 of
       (Some err, s9) \<Rightarrow> (Some (''failed to send DESCRIPTION_REQUEST: '' @ err), s9)
     | (None, s9) \<Rightarrow> (None, s9))))))))))"

text \<open>
  The handshake as the spec words it (section 4.1 and section 5), to compare with
  \<open>OnHello\<close>: the nine steps in their order, and a run that issues a step only after
  the send of the step before has returned without error.
\<close>

definition handshake_steps :: "message list" where
  "handshake_steps = [HELLO, SET_CONFIG, FEATURES_REQUEST, BARRIER_REQUEST, REMOVE_ALL_FLOWS,
     BARRIER_REQUEST, DESCRIPTION_REQUEST, BARRIER_REQUEST, PORT_DESCRIPTION_REQUEST]"

fun in_order :: "(trace \<Rightarrow> message \<Rightarrow> err option) \<Rightarrow> message list \<Rightarrow> trace \<Rightarrow> trace" where
  "in_order t [] tr = tr"
| "in_order t (m # ms) tr =
     (case t tr m of
        Some x \<Rightarrow> tr @ [(m, Some x)]
      | None \<Rightarrow> in_order t ms (tr @ [(m, None)]))"

text \<open>The sends that a handler added to the trace of the session.\<close>

definition issued :: "sess \<Rightarrow> sess \<Rightarrow> trace" where
  "issued s s' = drop (length (sent s)) (sent s')"

subsection \<open>Table-miss entries: OnDescReply\<close>

text \<open>
  Modelled from the spec: \<^verbatim>\<open>openflow.DescReply\<close> is not under src/; the handler reads
  its manufacturer and hardware strings. Go strings are byte strings, as \<open>string\<close> is;
  \<^verbatim>\<open>strings.HasPrefix\<close> is \<open>prefix\<close> and \<^verbatim>\<open>strings.Contains\<close> is \<open>sublist\<close>
  (a contiguous segment).
\<close>

record desc_reply =
  Manufacturer :: string
  Hardware :: string

definition isHP2920_24G :: "desc_reply \<Rightarrow> bool" where
  "isHP2920_24G msg \<longleftrightarrow> prefix ''HP'' (Manufacturer msg) \<and> prefix ''2920-24G'' (Hardware msg)"

definition isAS460054_T :: "desc_reply \<Rightarrow> bool" where
  "isAS460054_T msg \<longleftrightarrow> sublist ''AS4600-54T'' (Hardware msg)"

text \<open>
  The factory's constructors. \<^verbatim>\<open>NewInstruction\<close> allocates a fresh object in the
  store; a setter call on an instruction object is appended to what the store holds at
  its address, so every holder of the address sees it.
\<close>

definition NewInstruction :: "env \<Rightarrow> sess \<Rightarrow> (err + nat) \<times> sess" where
  "NewInstruction e s =
     (case factory e KInstruction of
        Some err \<Rightarrow> (Inl err, s)
      | None \<Rightarrow> (Inr (next_ref s),
                 s\<lparr>insts := (insts s)(next_ref s := []), next_ref := Suc (next_ref s)\<rparr>))"

definition NewAction :: "(obj_kind \<Rightarrow> err option) \<Rightarrow> err + action" where
  "NewAction f = (case f KAction of Some err \<Rightarrow> Inl err | None \<Rightarrow> Inr new_action)"

definition inst_set :: "nat \<Rightarrow> inst_call \<Rightarrow> sess \<Rightarrow> sess" where
  "inst_set r c s = s\<lparr>insts := (insts s)(r := insts s r @ [c])\<rparr>"

definition out_SetController :: "out_port \<Rightarrow> out_port" where
  "out_SetController p = OutController"

definition out_SetValue :: "u32 \<Rightarrow> out_port \<Rightarrow> out_port" where
  "out_SetValue v p = OutValue v"

definition in_SetController :: "in_port \<Rightarrow> in_port" where
  "in_SetController p = InController"

text \<open>\<^verbatim>\<open>w.Write(msg)\<close>: the message goes out with what its instruction object holds now.\<close>

definition Write :: "env \<Rightarrow> flow_mod \<Rightarrow> sess \<Rightarrow> err option \<times> sess" where
  "Write e msg s =
     issue e (FLOW_MOD msg (case fm_instruction msg of None \<Rightarrow> [] | Some r \<Rightarrow> insts s r)) s"

definition setTableMiss :: "env \<Rightarrow> u8 \<Rightarrow> nat \<Rightarrow> sess \<Rightarrow> err option \<times> sess" where
  "setTableMiss e tableID inst s =
    (case factory e KMatch of
       Some err \<Rightarrow> (Some err, s)
     | None \<Rightarrow>
    (case factory e KFlowMod of
       Some err \<Rightarrow> (Some err, s)
     | None \<Rightarrow>
       Write e
         (SetFlowInstruction inst
           (SetFlowMatch new_match
             (SetPriority 0
               (SetHardTimeout 0
                 (SetIdleTimeout 0
                   (SetTableID tableID
                     (SetCookie (push_bit 63 1)
                       (new_flow_mod FlowAdd)))))))) s))"

definition setHP2920TableMiss :: "env \<Rightarrow> sess \<Rightarrow> err option \<times> sess" where
  "setHP2920TableMiss e s0 =
    (case NewInstruction e s0 of
       (Inl err, s1) \<Rightarrow> (Some err, s1)
     | (Inr inst, s1) \<Rightarrow>
    (case setTableMiss e 0 inst (inst_set inst (GotoTable 100) s1) of
       (Some err, s2) \<Rightarrow> (Some (''failed to set table_miss flow entry: '' @ err), s2)
     | (None, s2) \<Rightarrow>
    (case setTableMiss e 100 inst (inst_set inst (GotoTable 200) s2) of
       (Some err, s3) \<Rightarrow> (Some (''failed to set table_miss flow entry: '' @ err), s3)
     | (None, s3) \<Rightarrow>
    (case NewAction (factory e) of
       Inl err \<Rightarrow> (Some err, s3)
     | Inr action \<Rightarrow>
    (case setTableMiss e 200 inst
            (inst_set inst
               (ApplyAction (SetOutPort (out_SetController NewOutPort) action)) s3) of
       (Some err, s4) \<Rightarrow> (Some (''failed to set table_miss flow entry: '' @ err), s4)
     | (None, s4) \<Rightarrow> (None, s4\<lparr>dev := SetFlowTableID 200 (dev s4)\<rparr>))))))"

definition setAS4600TableMiss :: "env \<Rightarrow> sess \<Rightarrow> err option \<times> sess" where
  "setAS4600TableMiss e s = (None, s)"

definition setDefaultTableMiss :: "env \<Rightarrow> sess \<Rightarrow> err option \<times> sess" where
  "setDefaultTableMiss e s0 =
    (case NewInstruction e s0 of
       (Inl err, s1) \<Rightarrow> (Some err, s1)
     | (Inr inst, s1) \<Rightarrow>
    (case NewAction (factory e) of
       Inl err \<Rightarrow> (Some err, s1)
     | Inr action \<Rightarrow>
    (case setTableMiss e 0 inst
            (inst_set inst
               (ApplyAction (SetOutPort (out_SetController NewOutPort) action)) s1) of
       (Some err, s2) \<Rightarrow> (Some (''failed to set table_miss flow entry: '' @ err), s2)
     | (None, s2) \<Rightarrow> (None, s2\<lparr>dev := SetFlowTableID 0 (dev s2)\<rparr>))))"

definition OnDescReply :: "env \<Rightarrow> desc_reply \<Rightarrow> sess \<Rightarrow> err option \<times> sess" where
  "OnDescReply e v s =
     (if isHP2920_24G v then setHP2920TableMiss e s
      else if isAS460054_T v then setAS4600TableMiss e s
      else setDefaultTableMiss e s)"

text \<open>
  The three profiles of the spec (section 4.1), their handlers, and the profile that the
  \<^verbatim>\<open>switch\<close> of \<^verbatim>\<open>OnDescReply\<close> reaches: its cases are tried in order.
\<close>

datatype profile = ProfileA | ProfileB | ProfileDefault

definition run_profile :: "profile \<Rightarrow> env \<Rightarrow> sess \<Rightarrow> err option \<times> sess" where
  "run_profile p e s =
     (case p of
        ProfileA \<Rightarrow> setHP2920TableMiss e s
      | ProfileB \<Rightarrow> setAS4600TableMiss e s
      | ProfileDefault \<Rightarrow> setDefaultTableMiss e s)"

definition selected_profile :: "desc_reply \<Rightarrow> profile" where
  "selected_profile v =
     (if isHP2920_24G v then ProfileA
      else if isAS460054_T v then ProfileB
      else ProfileDefault)"

text \<open>The table-miss contract of the spec, on a flow modification.\<close>

definition table_miss_contract :: "flow_mod \<Rightarrow> bool" where
  "table_miss_contract m \<longleftrightarrow>
     (case fm_match m of None \<Rightarrow> False | Some x \<Rightarrow> is_wildcard x) \<and>
     bit (fm_cookie m) 63 \<and>
     fm_idle_timeout m = 0 \<and> fm_hard_timeout m = 0 \<and> fm_priority m = 0"

text \<open>The action of the spec's table-miss entries: send to the controller.\<close>

definition send_to_controller :: action where
  "send_to_controller = \<lparr>act_out_port = Some OutController\<rparr>"

text \<open>The flow modifications among the sends of a trace, each with its instruction.\<close>

fun flow_mods :: "trace \<Rightarrow> (flow_mod \<times> instruction) list" where
  "flow_mods [] = []"
| "flow_mods ((FLOW_MOD m i, r) # tr) = (m, i) # flow_mods tr"
| "flow_mods (x # tr) = flow_mods tr"

subsection \<open>Ports: OnPortDescReply and OnPortStatus\<close>

text \<open>
  \<^verbatim>\<open>OnPortDescReply\<close> is the loop over \<^verbatim>\<open>v.Ports()\<close>; an error of \<^verbatim>\<open>sendLLDP\<close>
  is logged and dropped. \<^verbatim>\<open>OnPortStatus\<close> takes \<^verbatim>\<open>v.Port()\<close>.
\<close>

fun port_desc_loop :: "env \<Rightarrow> port list \<Rightarrow> sess \<Rightarrow> sess" where
  "port_desc_loop e [] s = s"
| "port_desc_loop e (p # ps) s =
     (if Number p > OFPP_MAX e then port_desc_loop e ps s
      else
        let s1 = s\<lparr>dev := AddPort (Number p) p (dev s)\<rparr> in
        if \<not> IsPortDown p \<and> \<not> IsLinkDown p
        then port_desc_loop e ps (snd (sendLLDP e (dev_id (dev s1)) p s1))
        else port_desc_loop e ps s1)"

definition OnPortDescReply :: "env \<Rightarrow> port list \<Rightarrow> sess \<Rightarrow> err option \<times> sess" where
  "OnPortDescReply e ps s = (None, port_desc_loop e ps s)"

definition OnPortStatus :: "env \<Rightarrow> port \<Rightarrow> sess \<Rightarrow> err option \<times> sess" where
  "OnPortStatus e p s =
     (if Number p > OFPP_MAX e then (None, s)
      else (None, s\<lparr>dev := UpdatePort (Number p) p (dev s)\<rparr>))"

subsection \<open>ProxyARP: OnPacketIn\<close>

text \<open>
  \<^verbatim>\<open>net.HardwareAddr\<close> and \<^verbatim>\<open>net.IP\<close> are byte slices. \<^verbatim>\<open>net.IP.Equal\<close> of Go's
  library takes a 4-byte address and its 16-byte IPv4-in-IPv6 form for the same address;
  \<^verbatim>\<open>bytes.Compare\<close> orders byte slices lexicographically and returns -1, 0 or 1.
\<close>

type_synonym mac = "u8 list"
type_synonym ip = "u8 list"

definition v4InV6Prefix :: "u8 list" where
  "v4InV6Prefix = [0, 0, 0, 0, 0, 0, 0, 0, 0, 0, 0xff, 0xff]"

definition IP_Equal :: "ip \<Rightarrow> ip \<Rightarrow> bool" where
  "IP_Equal a x =
     (if length a = length x then a = x
      else if length a = 4 \<and> length x = 16 then take 12 x = v4InV6Prefix \<and> a = drop 12 x
      else if length a = 16 \<and> length x = 4 then take 12 a = v4InV6Prefix \<and> drop 12 a = x
      else False)"

fun bytes_Compare :: "u8 list \<Rightarrow> u8 list \<Rightarrow> int" where
  "bytes_Compare [] [] = 0"
| "bytes_Compare [] (y # ys) = - 1"
| "bytes_Compare (x # xs) [] = 1"
| "bytes_Compare (x # xs) (y # ys) =
     (if x < y then - 1 else if y < x then 1 else bytes_Compare xs ys)"

text \<open>
  Modelled from the spec: the types \<^verbatim>\<open>protocol.Ethernet\<close> and \<^verbatim>\<open>protocol.ARP\<close> and
  the constructor \<^verbatim>\<open>protocol.NewARPReply\<close> are not under src/. The records have the
  fields the handler reads and writes. An ARP reply has operation code 2 and carries the
  directory's MAC as its sender, addressed to the requester's pair (spec section 4.3);
  the arguments of \<^verbatim>\<open>NewARPReply\<close> are sender MAC, target MAC, sender address, target
  address.
\<close>

record ethernet =
  SrcMAC :: mac
  DstMAC :: mac
  Type :: u16
  Payload :: "u8 list"

record arp =
  Operation :: u16
  SHA :: mac
  SPA :: ip
  THA :: mac
  TPA :: ip

definition NewARPReply :: "mac \<Rightarrow> mac \<Rightarrow> ip \<Rightarrow> ip \<Rightarrow> arp" where
  "NewARPReply sha tha spa tpa = \<lparr>Operation = 2, SHA = sha, SPA = spa, THA = tha, TPA = tpa\<rparr>"

text \<open>
  Modelled from the spec: \<^verbatim>\<open>network.Port\<close> and \<^verbatim>\<open>openflow.PacketOut\<close> are not under
  src/. The ingress port knows its device and its number; a packet-out has an in-port,
  an action and the frame to send.
\<close>

record ingress =
  Device :: string
  PortNumber :: u32

record packet_out =
  po_in_port :: in_port
  po_action :: "action option"
  po_data :: "u8 list"

definition new_packet_out :: packet_out where
  "new_packet_out = \<lparr>po_in_port = InUnset, po_action = None, po_data = []\<rparr>"

definition SetInPort :: "in_port \<Rightarrow> packet_out \<Rightarrow> packet_out" where
  "SetInPort p out = out\<lparr>po_in_port := p\<rparr>"

definition SetAction :: "action \<Rightarrow> packet_out \<Rightarrow> packet_out" where
  "SetAction a out = out\<lparr>po_action := Some a\<rparr>"

definition SetData :: "u8 list \<Rightarrow> packet_out \<Rightarrow> packet_out" where
  "SetData d out = out\<lparr>po_data := d\<rparr>"

definition NewPacketOut :: "(obj_kind \<Rightarrow> err option) \<Rightarrow> err + packet_out" where
  "NewPacketOut f = (case f KPacketOut of Some err \<Rightarrow> Inl err | None \<Rightarrow> Inr new_packet_out)"

text \<open>
  What the handler does to the outside, in order: a query of the directory, the hand-over
  of the event to the next stage of the pipeline (\<^verbatim>\<open>BaseProcessor.OnPacketIn\<close>), and a
  message sent to a device.
\<close>

datatype event =
    Lookup ip
  | Forwarded ingress ethernet
  | Sent string packet_out

text \<open>
  The collaborators of ProxyARP, all parameters: the directory (\<^verbatim>\<open>FindMAC\<close> returns
  a MAC, the found flag and an error), the codecs of package protocol (not under src/),
  the next stage of the pipeline, the factory of the ingress device and the device's
  \<^verbatim>\<open>SendMessage\<close>.
\<close>

record arp_env =
  FindMAC :: "ip \<Rightarrow> mac \<times> bool \<times> err option"
  UnmarshalARP :: "u8 list \<Rightarrow> err + arp"
  MarshalARP :: "arp \<Rightarrow> err + u8 list"
  MarshalEthernet :: "ethernet \<Rightarrow> err + u8 list"
  NextOnPacketIn :: "ingress \<Rightarrow> ethernet \<Rightarrow> err option"
  DeviceFactory :: "string \<Rightarrow> obj_kind \<Rightarrow> err option"
  SendMessage :: "string \<Rightarrow> packet_out \<Rightarrow> err option"

definition isARPAnnouncement :: "arp \<Rightarrow> bool" where
  "isARPAnnouncement request =
     (let sameAddr = IP_Equal (SPA request) (TPA request);
          zeroTarget = (bytes_Compare (THA request) [0, 0, 0, 0, 0, 0] = 0)
      in if \<not> sameAddr \<or> \<not> zeroTarget then False else True)"

definition isValidARPAnnouncement :: "arp_env \<Rightarrow> arp \<Rightarrow> (bool \<times> err option) \<times> event list" where
  "isValidARPAnnouncement e request =
     (case FindMAC e (SPA request) of (mac, ok, err) \<Rightarrow>
        (case err of
           Some x \<Rightarrow> ((False, Some x), [Lookup (SPA request)])
         | None \<Rightarrow>
             if \<not> ok \<or> bytes_Compare mac (SHA request) \<noteq> 0
             then ((False, None), [Lookup (SPA request)])
             else ((True, None), [Lookup (SPA request)])))"

definition makeARPReply :: "arp_env \<Rightarrow> arp \<Rightarrow> mac \<Rightarrow> err + u8 list" where
  "makeARPReply e request mac =
     (case MarshalARP e (NewARPReply mac (SHA request) (TPA request) (SPA request)) of
        Inl err \<Rightarrow> Inl err
      | Inr reply \<Rightarrow>
          MarshalEthernet e \<lparr>SrcMAC = mac, DstMAC = SHA request, Type = 0x0806, Payload = reply\<rparr>)"

definition sendARPReply :: "arp_env \<Rightarrow> ingress \<Rightarrow> u8 list \<Rightarrow> err option \<times> event list" where
  "sendARPReply e ing packet =
     (let f = DeviceFactory e (Device ing);
          inPort = in_SetController NewInPort;
          outPort = out_SetValue (PortNumber ing) NewOutPort
      in case NewAction f of
           Inl err \<Rightarrow> (Some err, [])
         | Inr action \<Rightarrow>
        (case NewPacketOut f of
           Inl err \<Rightarrow> (Some err, [])
         | Inr out \<Rightarrow>
             let msg = SetData packet (SetAction (SetOutPort outPort action) (SetInPort inPort out))
             in (SendMessage e (Device ing) msg, [Sent (Device ing) msg])))"

definition OnPacketIn :: "arp_env \<Rightarrow> ingress \<Rightarrow> ethernet \<Rightarrow> err option \<times> event list" where
  "OnPacketIn e ing eth =
     (if Type eth \<noteq> 0x0806 then (NextOnPacketIn e ing eth, [Forwarded ing eth])
      else case UnmarshalARP e (Payload eth) of
        Inl err \<Rightarrow> (Some err, [])
      | Inr arp \<Rightarrow>
          if Operation arp \<noteq> 1 then (None, [])
          else if isARPAnnouncement arp then
            (case isValidARPAnnouncement e arp of
               ((valid, Some err), evs) \<Rightarrow> (Some err, evs)
             | ((valid, None), evs) \<Rightarrow>
                 if \<not> valid then (None, evs)
                 else (NextOnPacketIn e ing eth, evs @ [Forwarded ing eth]))
          else
            (case FindMAC e (TPA arp) of (mac, ok, err) \<Rightarrow>
               (case err of
                  Some x \<Rightarrow> (Some x, [Lookup (TPA arp)])
                | None \<Rightarrow>
                    if \<not> ok then (None, [Lookup (TPA arp)])
                    else
                      (case makeARPReply e arp mac of
                         Inl x \<Rightarrow> (Some x, [Lookup (TPA arp)])
                       | Inr reply \<Rightarrow>
                           (case sendARPReply e ing reply of
                              (r, evs) \<Rightarrow> (r, Lookup (TPA arp) # evs))))))"

text \<open>The messages sent out and the hand-overs to the next stage among a handler's events.\<close>

fun outbound :: "event list \<Rightarrow> (string \<times> packet_out) list" where
  "outbound [] = []"
| "outbound (Sent d m # evs) = (d, m) # outbound evs"
| "outbound (x # evs) = outbound evs"

fun forwarded :: "event list \<Rightarrow> (ingress \<times> ethernet) list" where
  "forwarded [] = []"
| "forwarded (Forwarded i f # evs) = (i, f) # forwarded evs"
| "forwarded (x # evs) = forwarded evs"

fun lookups :: "event list \<Rightarrow> ip list" where
  "lookups [] = []"
| "lookups (Lookup a # evs) = a # lookups evs"
| "lookups (x # evs) = lookups evs"

subsection \<open>Concrete inputs\<close>

text \<open>
  A transport and a factory that never fail, with OpenFlow 1.3's \<^verbatim>\<open>OFPP_MAX\<close>; a
  transport that fails every send of one message with the error text \<^verbatim>\<open>closed\<close>; and
  a session that has sent nothing, for a device without ports whose default flow table
  is 7.
\<close>

definition quiet_env :: env where
  "quiet_env = \<lparr>transport = (\<lambda>tr m. None), factory = (\<lambda>k. None), OFPP_MAX = 0xffffff00\<rparr>"

definition failing_env :: "message \<Rightarrow> env" where
  "failing_env m = \<lparr>transport = (\<lambda>tr m'. if m' = m then Some ''closed'' else None),
     factory = (\<lambda>k. None), OFPP_MAX = 0xffffff00\<rparr>"

definition fresh_sess :: sess where
  "fresh_sess = \<lparr>sent = [], insts = (\<lambda>r. []), next_ref = 0,
     dev = \<lparr>dev_id = ''sw1'', flowTableID = 7, ports = Map.empty\<rparr>\<rparr>"

definition hp_desc :: desc_reply where
  "hp_desc = \<lparr>Manufacturer = ''HP'', Hardware = ''2920-24G Switch''\<rparr>"

definition as_desc :: desc_reply where
  "as_desc = \<lparr>Manufacturer = ''Accton'', Hardware = ''AS4600-54T''\<rparr>"

definition other_desc :: desc_reply where
  "other_desc = \<lparr>Manufacturer = ''Nicira, Inc.'', Hardware = ''Open vSwitch''\<rparr>"

definition both_desc :: desc_reply where
  "both_desc = \<lparr>Manufacturer = ''HP'', Hardware = ''2920-24G AS4600-54T''\<rparr>"

definition port_up :: port where
  "port_up = \<lparr>Number = 1, IsPortDown = False, IsLinkDown = False\<rparr>"

definition port_local :: port where
  "port_local = \<lparr>Number = 0xfffffffe, IsPortDown = False, IsLinkDown = False\<rparr>"

text \<open>
  A directory that knows 10.0.0.5 as aa:bb:cc:dd:ee:ff and nothing else; codecs that
  decode every payload to a given ARP packet and encode by concatenating the fields;
  a next stage, a factory and devices that never fail.
\<close>

definition host_ip :: ip where
  "host_ip = [10, 0, 0, 5]"

definition host_mac :: mac where
  "host_mac = [0xaa, 0xbb, 0xcc, 0xdd, 0xee, 0xff]"

definition asker_ip :: ip where
  "asker_ip = [10, 0, 0, 9]"

definition asker_mac :: mac where
  "asker_mac = [2, 0, 0, 0, 0, 9]"

definition lab_env :: "arp \<Rightarrow> arp_env" where
  "lab_env a = \<lparr>FindMAC = (\<lambda>x. if x = host_ip then (host_mac, True, None) else ([], False, None)),
     UnmarshalARP = (\<lambda>bs. Inr a),
     MarshalARP = (\<lambda>x. Inr (SHA x @ SPA x @ THA x @ TPA x)),
     MarshalEthernet = (\<lambda>f. Inr (DstMAC f @ SrcMAC f @ Payload f)),
     NextOnPacketIn = (\<lambda>i f. None),
     DeviceFactory = (\<lambda>d k. None),
     SendMessage = (\<lambda>d m. None)\<rparr>"

definition arp_frame :: ethernet where
  "arp_frame = \<lparr>SrcMAC = asker_mac, DstMAC = [0xff, 0xff, 0xff, 0xff, 0xff, 0xff],
     Type = 0x0806, Payload = []\<rparr>"

definition port3 :: ingress where
  "port3 = \<lparr>Device = ''sw1'', PortNumber = 3\<rparr>"

definition request_known :: arp where
  "request_known = \<lparr>Operation = 1, SHA = asker_mac, SPA = asker_ip,
     THA = [0, 0, 0, 0, 0, 0], TPA = host_ip\<rparr>"

definition request_unknown :: arp where
  "request_unknown = \<lparr>Operation = 1, SHA = asker_mac, SPA = asker_ip,
     THA = [0, 0, 0, 0, 0, 0], TPA = [10, 0, 0, 77]\<rparr>"

definition announce_good :: arp where
  "announce_good = \<lparr>Operation = 1, SHA = host_mac, SPA = host_ip,
     THA = [0, 0, 0, 0, 0, 0], TPA = host_ip\<rparr>"

definition announce_forged :: arp where
  "announce_forged = \<lparr>Operation = 1, SHA = asker_mac, SPA = host_ip,
     THA = [0, 0, 0, 0, 0, 0], TPA = host_ip\<rparr>"

section \<open>Properties\<close>

subsection \<open>The handshake\<close>

lemmas send_defs = sendHello_def sendSetConfig_def sendFeaturesRequest_def
  sendBarrierRequest_def sendRemovingAllFlows_def sendDescriptionRequest_def
  sendPortDescriptionRequest_def issue_def

lemma OnHello_in_order:
  "sent (snd (OnHello e s)) = in_order (transport e) handshake_steps (sent s)"
  by (simp add: OnHello_def send_defs handshake_steps_def split: option.splits)

lemma OnHello_appends: "sent (snd (OnHello e s)) = sent s @ issued s (snd (OnHello e s))"
  by (simp add: OnHello_def send_defs issued_def split: option.splits)

lemma OnHello_prefix_of_steps:
  "map fst (issued s (snd (OnHello e s))) =
     take (length (issued s (snd (OnHello e s)))) handshake_steps"
  by (simp add: OnHello_def send_defs issued_def handshake_steps_def split: option.splits)

lemma OnHello_completed_before_next:
  "\<forall>x \<in> set (butlast (issued s (snd (OnHello e s)))). snd x = None"
  by (simp add: OnHello_def send_defs issued_def split: option.splits)

lemma OnHello_success_iff:
  "fst (OnHello e s) = None \<longleftrightarrow>
     issued s (snd (OnHello e s)) = map (\<lambda>m. (m, None)) handshake_steps"
  by (simp add: OnHello_def send_defs issued_def handshake_steps_def split: option.splits)

text \<open>
  Claim C1. On the initial greeting the handshake issues its sends in the fixed order
  greeting acknowledgment, configuration-set, features request, barrier, remove-all-flows,
  barrier, description request, barrier, port-description request: the trace after
  \<open>OnHello\<close> is the one of the run in that order, which issues a step only when the send
  before it has returned without error. What \<open>OnHello\<close> adds to the trace is a prefix of
  the nine steps, every send but the last one issued has completed without error, and
  \<open>OnHello\<close> returns \<^verbatim>\<open>nil\<close> exactly when all nine sends were issued and completed.
\<close>

theorem OnHello_nine_steps_in_order:
  "sent (snd (OnHello e s)) = in_order (transport e) handshake_steps (sent s) \<and>
   sent (snd (OnHello e s)) = sent s @ issued s (snd (OnHello e s)) \<and>
   map fst (issued s (snd (OnHello e s))) =
     take (length (issued s (snd (OnHello e s)))) handshake_steps \<and>
   (\<forall>x \<in> set (butlast (issued s (snd (OnHello e s)))). snd x = None) \<and>
   (fst (OnHello e s) = None \<longleftrightarrow>
      issued s (snd (OnHello e s)) = map (\<lambda>m. (m, None)) handshake_steps) \<and>
   length handshake_steps = 9"
  using OnHello_in_order OnHello_appends OnHello_prefix_of_steps OnHello_completed_before_next
    OnHello_success_iff by (simp add: handshake_steps_def)

theorem OnHello_nine_steps_in_order_witness:
  "fst (OnHello quiet_env fresh_sess) = None \<and>
   issued fresh_sess (snd (OnHello quiet_env fresh_sess)) =
     [(HELLO, None), (SET_CONFIG, None), (FEATURES_REQUEST, None), (BARRIER_REQUEST, None),
      (REMOVE_ALL_FLOWS, None), (BARRIER_REQUEST, None), (DESCRIPTION_REQUEST, None),
      (BARRIER_REQUEST, None), (PORT_DESCRIPTION_REQUEST, None)]"
proof -
  have ok: "fst (OnHello quiet_env fresh_sess) = None"
    by (simp add: OnHello_def send_defs quiet_env_def)
  with OnHello_nine_steps_in_order [of quiet_env fresh_sess]
  have "issued fresh_sess (snd (OnHello quiet_env fresh_sess)) =
          map (\<lambda>m. (m, None)) handshake_steps"
    by blast
  with ok show ?thesis
    by (simp add: handshake_steps_def)
qed

text \<open>
  Claim C6. The wrapped error of a failing step names that step. It does not at step 9:
  when the send of the port-description request fails, \<open>OnHello\<close> returns the text of
  step 7, the description request. Here the transport fails that one send with the error
  \<^verbatim>\<open>closed\<close>; the last send issued is the ninth, the port-description request, and the
  error returned is the one returned when the seventh send fails.
\<close>

theorem OnHello_port_description_error_text:
  "fst (OnHello (failing_env PORT_DESCRIPTION_REQUEST) fresh_sess) =
     Some ''failed to send DESCRIPTION_REQUEST: closed'' \<and>
   fst (last (sent (snd (OnHello (failing_env PORT_DESCRIPTION_REQUEST) fresh_sess)))) =
     PORT_DESCRIPTION_REQUEST \<and>
   length (sent (snd (OnHello (failing_env PORT_DESCRIPTION_REQUEST) fresh_sess))) = 9 \<and>
   fst (OnHello (failing_env DESCRIPTION_REQUEST) fresh_sess) =
     Some ''failed to send DESCRIPTION_REQUEST: closed'' \<and>
   fst (last (sent (snd (OnHello (failing_env DESCRIPTION_REQUEST) fresh_sess)))) =
     DESCRIPTION_REQUEST \<and>
   length (sent (snd (OnHello (failing_env DESCRIPTION_REQUEST) fresh_sess))) = 7"
  by (simp add: OnHello_def send_defs failing_env_def fresh_sess_def)

subsection \<open>Profiles and table-miss entries\<close>

lemma selected_profile_cases:
  "selected_profile v = ProfileA \<longleftrightarrow> isHP2920_24G v"
  "selected_profile v = ProfileB \<longleftrightarrow> \<not> isHP2920_24G v \<and> isAS460054_T v"
  "selected_profile v = ProfileDefault \<longleftrightarrow> \<not> isHP2920_24G v \<and> \<not> isAS460054_T v"
  by (simp_all add: selected_profile_def)

lemma desc_facts:
  "isHP2920_24G hp_desc" "\<not> isAS460054_T hp_desc"
  "\<not> isHP2920_24G as_desc" "isAS460054_T as_desc"
  "\<not> isHP2920_24G other_desc" "\<not> isAS460054_T other_desc"
  "isHP2920_24G both_desc" "isAS460054_T both_desc"
  by (simp_all add: isHP2920_24G_def isAS460054_T_def hp_desc_def as_desc_def other_desc_def
      both_desc_def sublist_Cons_right)

lemmas obj_defs = new_flow_mod_def SetCookie_def SetTableID_def SetIdleTimeout_def
  SetHardTimeout_def SetPriority_def SetFlowMatch_def SetFlowInstruction_def new_match_def
  new_action_def SetOutPort_def NewOutPort_def out_SetController_def

lemmas handler_defs = setHP2920TableMiss_def setDefaultTableMiss_def setAS4600TableMiss_def
  setTableMiss_def NewInstruction_def NewAction_def Write_def issue_def inst_set_def

text \<open>
  Claim C2, as amended. Profile selection is a function of the manufacturer and hardware
  strings alone and selects exactly one of the three profiles, the first whose condition
  holds: manufacturer with prefix \<^verbatim>\<open>HP\<close> and hardware with prefix \<^verbatim>\<open>2920-24G\<close>
  selects Profile A; otherwise, hardware containing \<^verbatim>\<open>AS4600-54T\<close> selects Profile B;
  any other descriptor selects the default profile. \<open>OnDescReply\<close> runs the handler of
  the selected profile, and does the same on two replies with the same two strings.
\<close>

theorem profile_selection_first_match:
  "OnDescReply e v s = run_profile (selected_profile v) e s \<and>
   (selected_profile v = ProfileA \<longleftrightarrow>
      prefix ''HP'' (Manufacturer v) \<and> prefix ''2920-24G'' (Hardware v)) \<and>
   (selected_profile v = ProfileB \<longleftrightarrow>
      \<not> (prefix ''HP'' (Manufacturer v) \<and> prefix ''2920-24G'' (Hardware v)) \<and>
      sublist ''AS4600-54T'' (Hardware v)) \<and>
   (selected_profile v = ProfileDefault \<longleftrightarrow>
      \<not> (prefix ''HP'' (Manufacturer v) \<and> prefix ''2920-24G'' (Hardware v)) \<and>
      \<not> sublist ''AS4600-54T'' (Hardware v)) \<and>
   (prefix ''HP'' (Manufacturer v) \<and> prefix ''2920-24G'' (Hardware v) \<longrightarrow>
      OnDescReply e v s = setHP2920TableMiss e s) \<and>
   (\<not> (prefix ''HP'' (Manufacturer v) \<and> prefix ''2920-24G'' (Hardware v)) \<and>
    sublist ''AS4600-54T'' (Hardware v) \<longrightarrow>
      OnDescReply e v s = setAS4600TableMiss e s) \<and>
   (\<not> (prefix ''HP'' (Manufacturer v) \<and> prefix ''2920-24G'' (Hardware v)) \<and>
    \<not> sublist ''AS4600-54T'' (Hardware v) \<longrightarrow>
      OnDescReply e v s = setDefaultTableMiss e s) \<and>
   (Manufacturer v' = Manufacturer v \<and> Hardware v' = Hardware v \<longrightarrow>
      OnDescReply e v' s = OnDescReply e v s)"
  by (simp add: OnDescReply_def run_profile_def selected_profile_def isHP2920_24G_def
      isAS460054_T_def)

theorem profile_selection_first_match_witness:
  "selected_profile hp_desc = ProfileA \<and>
   OnDescReply quiet_env hp_desc fresh_sess = setHP2920TableMiss quiet_env fresh_sess \<and>
   selected_profile as_desc = ProfileB \<and>
   OnDescReply quiet_env as_desc fresh_sess = setAS4600TableMiss quiet_env fresh_sess \<and>
   selected_profile other_desc = ProfileDefault \<and>
   OnDescReply quiet_env other_desc fresh_sess = setDefaultTableMiss quiet_env fresh_sess \<and>
   selected_profile both_desc = ProfileA"
proof -
  have strings:
    "prefix ''HP'' (Manufacturer hp_desc) \<and> prefix ''2920-24G'' (Hardware hp_desc)"
    "\<not> (prefix ''HP'' (Manufacturer as_desc) \<and> prefix ''2920-24G'' (Hardware as_desc))"
    "sublist ''AS4600-54T'' (Hardware as_desc)"
    "\<not> (prefix ''HP'' (Manufacturer other_desc) \<and> prefix ''2920-24G'' (Hardware other_desc))"
    "\<not> sublist ''AS4600-54T'' (Hardware other_desc)"
    "prefix ''HP'' (Manufacturer both_desc) \<and> prefix ''2920-24G'' (Hardware both_desc)"
    by (simp_all add: hp_desc_def as_desc_def other_desc_def both_desc_def sublist_Cons_right)
  from profile_selection_first_match [of quiet_env hp_desc fresh_sess hp_desc] strings(1)
  have "selected_profile hp_desc = ProfileA \<and>
      OnDescReply quiet_env hp_desc fresh_sess = setHP2920TableMiss quiet_env fresh_sess"
    by blast
  moreover
  from profile_selection_first_match [of quiet_env as_desc fresh_sess as_desc] strings(2,3)
  have "selected_profile as_desc = ProfileB \<and>
      OnDescReply quiet_env as_desc fresh_sess = setAS4600TableMiss quiet_env fresh_sess"
    by blast
  moreover
  from profile_selection_first_match [of quiet_env other_desc fresh_sess other_desc]
    strings(4,5)
  have "selected_profile other_desc = ProfileDefault \<and>
      OnDescReply quiet_env other_desc fresh_sess = setDefaultTableMiss quiet_env fresh_sess"
    by blast
  moreover
  from profile_selection_first_match [of quiet_env both_desc fresh_sess both_desc] strings(6)
  have "selected_profile both_desc = ProfileA"
    by blast
  ultimately show ?thesis
    by blast
qed

text \<open>
  The claim as stated has every hardware string that contains \<^verbatim>\<open>AS4600-54T\<close> select
  Profile B. A descriptor of manufacturer \<^verbatim>\<open>HP\<close> and hardware
  \<^verbatim>\<open>2920-24G AS4600-54T\<close> contains it and is handled as Profile A: three flow
  modifications are sent and the default table becomes 200.
\<close>

theorem profile_B_clause_counterexample:
  "isAS460054_T both_desc \<and>
   sublist ''AS4600-54T'' (Hardware both_desc) \<and>
   selected_profile both_desc \<noteq> ProfileB \<and>
   OnDescReply quiet_env both_desc fresh_sess = setHP2920TableMiss quiet_env fresh_sess \<and>
   OnDescReply quiet_env both_desc fresh_sess \<noteq> setAS4600TableMiss quiet_env fresh_sess \<and>
   length (flow_mods (sent (snd (OnDescReply quiet_env both_desc fresh_sess)))) = 3 \<and>
   flowTableID (dev (snd (OnDescReply quiet_env both_desc fresh_sess))) = 200"
proof -
  have run: "OnDescReply quiet_env both_desc fresh_sess = setHP2920TableMiss quiet_env fresh_sess"
    by (simp add: OnDescReply_def desc_facts)
  have three: "length (flow_mods (sent (snd (setHP2920TableMiss quiet_env fresh_sess)))) = 3"
    by (simp add: handler_defs obj_defs quiet_env_def fresh_sess_def)
  have table: "flowTableID (dev (snd (setHP2920TableMiss quiet_env fresh_sess))) = 200"
    by (simp add: handler_defs obj_defs quiet_env_def fresh_sess_def SetFlowTableID_def)
  have none: "flow_mods (sent (snd (setAS4600TableMiss quiet_env fresh_sess))) = []"
    by (simp add: setAS4600TableMiss_def fresh_sess_def)
  from three none
  have differ: "setHP2920TableMiss quiet_env fresh_sess \<noteq> setAS4600TableMiss quiet_env fresh_sess"
    by auto
  have contains: "sublist ''AS4600-54T'' (Hardware both_desc)"
    using desc_facts(8) by (simp add: isAS460054_T_def)
  from run three table differ contains desc_facts(8) show ?thesis
    by (simp add: selected_profile_cases desc_facts)
qed


lemma hp_chain:
  assumes "fst (setHP2920TableMiss e s) = None"
  shows "map (\<lambda>(m, i). (fm_table_id m, fm_match m, i))
           (flow_mods (issued s (snd (setHP2920TableMiss e s)))) =
         [(0, Some [], [GotoTable 100]),
          (100, Some [], [GotoTable 100, GotoTable 200]),
          (200, Some [], [GotoTable 100, GotoTable 200, ApplyAction send_to_controller])]"
    and "map snd (issued s (snd (setHP2920TableMiss e s))) = [None, None, None]"
    and "sent (snd (setHP2920TableMiss e s)) = sent s @ issued s (snd (setHP2920TableMiss e s))"
    and "dev (snd (setHP2920TableMiss e s)) = SetFlowTableID 200 (dev s)"
  using assms
  by (auto simp: handler_defs obj_defs issued_def send_to_controller_def
      split: option.splits sum.splits prod.splits if_splits)

lemma default_entry:
  assumes "fst (setDefaultTableMiss e s) = None"
  shows "map (\<lambda>(m, i). (fm_table_id m, fm_match m, i))
           (flow_mods (issued s (snd (setDefaultTableMiss e s)))) =
         [(0, Some [], [ApplyAction send_to_controller])]"
    and "map snd (issued s (snd (setDefaultTableMiss e s))) = [None]"
    and "sent (snd (setDefaultTableMiss e s)) =
           sent s @ issued s (snd (setDefaultTableMiss e s))"
    and "dev (snd (setDefaultTableMiss e s)) = SetFlowTableID 0 (dev s)"
  using assms
  by (auto simp: handler_defs obj_defs issued_def send_to_controller_def
      split: option.splits sum.splits prod.splits if_splits)

lemma failure_keeps_device:
  "fst (setHP2920TableMiss e s) \<noteq> None \<Longrightarrow> dev (snd (setHP2920TableMiss e s)) = dev s"
  "fst (setDefaultTableMiss e s) \<noteq> None \<Longrightarrow> dev (snd (setDefaultTableMiss e s)) = dev s"
  by (auto simp: handler_defs obj_defs split: option.splits sum.splits prod.splits if_splits)

lemma no_failure_success:
  assumes "\<And>k. factory e k = None" and "\<And>tr m. transport e tr m = None"
  shows "fst (setHP2920TableMiss e s) = None" and "fst (setDefaultTableMiss e s) = None"
  using assms
  by (auto simp: handler_defs obj_defs split: option.splits sum.splits prod.splits if_splits)

lemma current_instruction_last [simp]: "current_instruction (xs @ [c]) = Some c"
  by (simp add: current_instruction_def)

lemma quiet_runs:
  "fst (OnDescReply quiet_env hp_desc fresh_sess) = None"
  "fst (OnDescReply quiet_env other_desc fresh_sess) = None"
  by (simp_all add: OnDescReply_def desc_facts no_failure_success quiet_env_def)

text \<open>
  Claim C3. When the description reply selects Profile A and the handler succeeds, it has
  sent exactly three flow modifications, all completed: table 0 with a wildcard match and
  the instruction go-to-table 100, table 100 with go-to-table 200, table 200 with the
  action send-to-controller (the instruction object is the same for the three: what it
  holds is the sequence of its setter calls, and it stands for the latest); and the
  device's default flow table is 200. When it selects the default profile and succeeds,
  it has sent exactly one, table 0 with the action send-to-controller, and the default
  flow table is 0. The handler succeeds whenever no constructor and no send fails; when
  it fails, the device is as it was.
\<close>

theorem table_miss_entries_of_profiles:
  "(isHP2920_24G v \<and> fst (OnDescReply e v s) = None \<longrightarrow>
      map (\<lambda>(m, i). (fm_table_id m, fm_match m, current_instruction i))
          (flow_mods (issued s (snd (OnDescReply e v s)))) =
        [(0, Some [], Some (GotoTable 100)),
         (100, Some [], Some (GotoTable 200)),
         (200, Some [], Some (ApplyAction send_to_controller))] \<and>
      map (\<lambda>(m, i). i) (flow_mods (issued s (snd (OnDescReply e v s)))) =
        [[GotoTable 100],
         [GotoTable 100, GotoTable 200],
         [GotoTable 100, GotoTable 200, ApplyAction send_to_controller]] \<and>
      map snd (issued s (snd (OnDescReply e v s))) = [None, None, None] \<and>
      sent (snd (OnDescReply e v s)) = sent s @ issued s (snd (OnDescReply e v s)) \<and>
      dev (snd (OnDescReply e v s)) = (dev s)\<lparr>flowTableID := 200\<rparr>) \<and>
   (\<not> isHP2920_24G v \<and> \<not> isAS460054_T v \<and> fst (OnDescReply e v s) = None \<longrightarrow>
      map (\<lambda>(m, i). (fm_table_id m, fm_match m, current_instruction i))
          (flow_mods (issued s (snd (OnDescReply e v s)))) =
        [(0, Some [], Some (ApplyAction send_to_controller))] \<and>
      map snd (issued s (snd (OnDescReply e v s))) = [None] \<and>
      sent (snd (OnDescReply e v s)) = sent s @ issued s (snd (OnDescReply e v s)) \<and>
      dev (snd (OnDescReply e v s)) = (dev s)\<lparr>flowTableID := 0\<rparr>) \<and>
   (fst (OnDescReply e v s) \<noteq> None \<longrightarrow> dev (snd (OnDescReply e v s)) = dev s) \<and>
   ((\<forall>k. factory e k = None) \<and> (\<forall>tr m. transport e tr m = None) \<longrightarrow>
      fst (OnDescReply e v s) = None)"
proof -
  have a: "isHP2920_24G v \<Longrightarrow> OnDescReply e v s = setHP2920TableMiss e s"
    by (simp add: OnDescReply_def)
  have d: "\<not> isHP2920_24G v \<Longrightarrow> \<not> isAS460054_T v \<Longrightarrow>
      OnDescReply e v s = setDefaultTableMiss e s"
    by (simp add: OnDescReply_def)
  have b: "\<not> isHP2920_24G v \<Longrightarrow> isAS460054_T v \<Longrightarrow> OnDescReply e v s = (None, s)"
    by (simp add: OnDescReply_def setAS4600TableMiss_def)
  have A: "isHP2920_24G v \<and> fst (OnDescReply e v s) = None \<longrightarrow>
      map (\<lambda>(m, i). (fm_table_id m, fm_match m, current_instruction i))
          (flow_mods (issued s (snd (OnDescReply e v s)))) =
        [(0, Some [], Some (GotoTable 100)),
         (100, Some [], Some (GotoTable 200)),
         (200, Some [], Some (ApplyAction send_to_controller))] \<and>
      map (\<lambda>(m, i). i) (flow_mods (issued s (snd (OnDescReply e v s)))) =
        [[GotoTable 100],
         [GotoTable 100, GotoTable 200],
         [GotoTable 100, GotoTable 200, ApplyAction send_to_controller]] \<and>
      map snd (issued s (snd (OnDescReply e v s))) = [None, None, None] \<and>
      sent (snd (OnDescReply e v s)) = sent s @ issued s (snd (OnDescReply e v s)) \<and>
      dev (snd (OnDescReply e v s)) = (dev s)\<lparr>flowTableID := 200\<rparr>"
  proof (intro impI, elim conjE)
    assume hp: "isHP2920_24G v" and ok: "fst (OnDescReply e v s) = None"
    from hp ok have ok': "fst (setHP2920TableMiss e s) = None"
      by (simp add: a)
    from hp_chain(1) [OF ok']
    have "map (\<lambda>(m, i). (fm_table_id m, fm_match m, current_instruction i))
          (flow_mods (issued s (snd (setHP2920TableMiss e s)))) =
        [(0, Some [], Some (GotoTable 100)),
         (100, Some [], Some (GotoTable 200)),
         (200, Some [], Some (ApplyAction send_to_controller))] \<and>
      map (\<lambda>(m, i). i) (flow_mods (issued s (snd (setHP2920TableMiss e s)))) =
        [[GotoTable 100],
         [GotoTable 100, GotoTable 200],
         [GotoTable 100, GotoTable 200, ApplyAction send_to_controller]]"
      by (auto simp: current_instruction_def)
    with hp_chain(2-4) [OF ok'] show "map (\<lambda>(m, i). (fm_table_id m, fm_match m, current_instruction i))
          (flow_mods (issued s (snd (OnDescReply e v s)))) =
        [(0, Some [], Some (GotoTable 100)),
         (100, Some [], Some (GotoTable 200)),
         (200, Some [], Some (ApplyAction send_to_controller))] \<and>
      map (\<lambda>(m, i). i) (flow_mods (issued s (snd (OnDescReply e v s)))) =
        [[GotoTable 100],
         [GotoTable 100, GotoTable 200],
         [GotoTable 100, GotoTable 200, ApplyAction send_to_controller]] \<and>
      map snd (issued s (snd (OnDescReply e v s))) = [None, None, None] \<and>
      sent (snd (OnDescReply e v s)) = sent s @ issued s (snd (OnDescReply e v s)) \<and>
      dev (snd (OnDescReply e v s)) = (dev s)\<lparr>flowTableID := 200\<rparr>"
      by (simp add: a [OF hp] SetFlowTableID_def)
  qed
  have D: "\<not> isHP2920_24G v \<and> \<not> isAS460054_T v \<and> fst (OnDescReply e v s) = None \<longrightarrow>
      map (\<lambda>(m, i). (fm_table_id m, fm_match m, current_instruction i))
          (flow_mods (issued s (snd (OnDescReply e v s)))) =
        [(0, Some [], Some (ApplyAction send_to_controller))] \<and>
      map snd (issued s (snd (OnDescReply e v s))) = [None] \<and>
      sent (snd (OnDescReply e v s)) = sent s @ issued s (snd (OnDescReply e v s)) \<and>
      dev (snd (OnDescReply e v s)) = (dev s)\<lparr>flowTableID := 0\<rparr>"
  proof (intro impI, elim conjE)
    assume n1: "\<not> isHP2920_24G v" and n2: "\<not> isAS460054_T v"
      and ok: "fst (OnDescReply e v s) = None"
    from n1 n2 ok have ok': "fst (setDefaultTableMiss e s) = None"
      by (simp add: d)
    from default_entry(1) [OF ok']
    have "map (\<lambda>(m, i). (fm_table_id m, fm_match m, current_instruction i))
          (flow_mods (issued s (snd (setDefaultTableMiss e s)))) =
        [(0, Some [], Some (ApplyAction send_to_controller))]"
      by (auto simp: current_instruction_def)
    with default_entry(2-4) [OF ok'] show "map (\<lambda>(m, i). (fm_table_id m, fm_match m, current_instruction i))
          (flow_mods (issued s (snd (OnDescReply e v s)))) =
        [(0, Some [], Some (ApplyAction send_to_controller))] \<and>
      map snd (issued s (snd (OnDescReply e v s))) = [None] \<and>
      sent (snd (OnDescReply e v s)) = sent s @ issued s (snd (OnDescReply e v s)) \<and>
      dev (snd (OnDescReply e v s)) = (dev s)\<lparr>flowTableID := 0\<rparr>"
      by (simp add: d [OF n1 n2] SetFlowTableID_def)
  qed
  have F: "fst (OnDescReply e v s) \<noteq> None \<longrightarrow> dev (snd (OnDescReply e v s)) = dev s"
    using a b d failure_keeps_device [of e s]
    by (cases "isHP2920_24G v"; cases "isAS460054_T v") auto
  have S: "(\<forall>k. factory e k = None) \<and> (\<forall>tr m. transport e tr m = None) \<longrightarrow>
      fst (OnDescReply e v s) = None"
    using a b d no_failure_success [of e s]
    by (cases "isHP2920_24G v"; cases "isAS460054_T v") auto
  from A D F S show ?thesis
    by blast
qed

theorem table_miss_entries_of_profiles_witness:
  "map (\<lambda>(m, i). (fm_table_id m, fm_match m, current_instruction i))
       (flow_mods (issued fresh_sess (snd (OnDescReply quiet_env hp_desc fresh_sess)))) =
     [(0, Some [], Some (GotoTable 100)),
      (100, Some [], Some (GotoTable 200)),
      (200, Some [], Some (ApplyAction send_to_controller))] \<and>
   flowTableID (dev (snd (OnDescReply quiet_env hp_desc fresh_sess))) = 200 \<and>
   map (\<lambda>(m, i). (fm_table_id m, fm_match m, current_instruction i))
       (flow_mods (issued fresh_sess (snd (OnDescReply quiet_env other_desc fresh_sess)))) =
     [(0, Some [], Some (ApplyAction send_to_controller))] \<and>
   flowTableID (dev (snd (OnDescReply quiet_env other_desc fresh_sess))) = 0"
proof -
  note hp = table_miss_entries_of_profiles [of hp_desc quiet_env fresh_sess]
  note other = table_miss_entries_of_profiles [of other_desc quiet_env fresh_sess]
  from hp desc_facts(1) quiet_runs(1)
  have "map (\<lambda>(m, i). (fm_table_id m, fm_match m, current_instruction i))
       (flow_mods (issued fresh_sess (snd (OnDescReply quiet_env hp_desc fresh_sess)))) =
     [(0, Some [], Some (GotoTable 100)),
      (100, Some [], Some (GotoTable 200)),
      (200, Some [], Some (ApplyAction send_to_controller))] \<and>
     dev (snd (OnDescReply quiet_env hp_desc fresh_sess)) = (dev fresh_sess)\<lparr>flowTableID := 200\<rparr>"
    by blast
  moreover from other desc_facts(5,6) quiet_runs(2)
  have "map (\<lambda>(m, i). (fm_table_id m, fm_match m, current_instruction i))
       (flow_mods (issued fresh_sess (snd (OnDescReply quiet_env other_desc fresh_sess)))) =
     [(0, Some [], Some (ApplyAction send_to_controller))] \<and>
     dev (snd (OnDescReply quiet_env other_desc fresh_sess)) = (dev fresh_sess)\<lparr>flowTableID := 0\<rparr>"
    by blast
  ultimately show ?thesis
    by simp
qed

text \<open>
  Claim C4, as amended. When the description reply selects Profile B, that is, when its
  hardware string contains \<^verbatim>\<open>AS4600-54T\<close> and the Profile A condition (manufacturer
  with prefix \<^verbatim>\<open>HP\<close>, hardware with prefix \<^verbatim>\<open>2920-24G\<close>) does not hold, the handler
  returns \<^verbatim>\<open>nil\<close> and leaves the session as it was, whatever the transport and the
  factory would do: no flow modification (no message at all) is written, and the device,
  with its default flow-table identifier, is unchanged.
\<close>

theorem profile_B_installs_nothing:
  assumes "\<not> isHP2920_24G v" and "isAS460054_T v"
  shows "OnDescReply e v s = (None, s) \<and>
         issued s (snd (OnDescReply e v s)) = [] \<and>
         flowTableID (dev (snd (OnDescReply e v s))) = flowTableID (dev s)"
  using assms by (simp add: OnDescReply_def setAS4600TableMiss_def issued_def)

theorem profile_B_installs_nothing_witness:
  "\<not> isHP2920_24G as_desc \<and> isAS460054_T as_desc \<and>
   OnDescReply (failing_env HELLO) as_desc fresh_sess = (None, fresh_sess) \<and>
   flowTableID (dev (snd (OnDescReply (failing_env HELLO) as_desc fresh_sess))) = 7"
  using profile_B_installs_nothing [of as_desc "failing_env HELLO" fresh_sess] desc_facts(3,4)
  by (simp add: fresh_sess_def)

text \<open>
  The claim as stated takes a hardware string that contains \<^verbatim>\<open>AS4600-54T\<close> for the
  condition of Profile B. The reply of manufacturer \<^verbatim>\<open>HP\<close> and hardware
  \<^verbatim>\<open>2920-24G AS4600-54T\<close> meets it, and the handler, which tries the HP 2920 case
  first, writes three flow modifications, each completed, and changes the device's default
  flow table from 7 to 200.
\<close>

theorem hardware_contains_AS4600_counterexample:
  "isAS460054_T both_desc \<and>
   sublist ''AS4600-54T'' (Hardware both_desc) \<and>
   fst (OnDescReply quiet_env both_desc fresh_sess) = None \<and>
   map (\<lambda>(m, i). fm_table_id m)
     (flow_mods (issued fresh_sess (snd (OnDescReply quiet_env both_desc fresh_sess)))) =
     [0, 100, 200] \<and>
   map snd (issued fresh_sess (snd (OnDescReply quiet_env both_desc fresh_sess))) =
     [None, None, None] \<and>
   issued fresh_sess (snd (OnDescReply quiet_env both_desc fresh_sess)) \<noteq> [] \<and>
   flowTableID (dev fresh_sess) = 7 \<and>
   flowTableID (dev (snd (OnDescReply quiet_env both_desc fresh_sess))) = 200 \<and>
   OnDescReply quiet_env both_desc fresh_sess \<noteq> (None, fresh_sess)"
proof -
  have run: "OnDescReply quiet_env both_desc fresh_sess = setHP2920TableMiss quiet_env fresh_sess"
    by (simp add: OnDescReply_def desc_facts)
  have contains: "sublist ''AS4600-54T'' (Hardware both_desc)"
    using desc_facts(8) by (simp add: isAS460054_T_def)
  have ok: "fst (setHP2920TableMiss quiet_env fresh_sess) = None"
    by (simp add: no_failure_success quiet_env_def)
  have tables: "map (\<lambda>(m, i). fm_table_id m)
      (flow_mods (issued fresh_sess (snd (setHP2920TableMiss quiet_env fresh_sess)))) =
      [0, 100, 200]"
    by (simp add: handler_defs obj_defs issued_def quiet_env_def fresh_sess_def)
  have outcomes: "map snd (issued fresh_sess (snd (setHP2920TableMiss quiet_env fresh_sess))) =
      [None, None, None]"
    by (rule hp_chain(2) [OF ok])
  then have some: "issued fresh_sess (snd (setHP2920TableMiss quiet_env fresh_sess)) \<noteq> []"
    by auto
  have before: "flowTableID (dev fresh_sess) = 7"
    by (simp add: fresh_sess_def)
  have after: "flowTableID (dev (snd (setHP2920TableMiss quiet_env fresh_sess))) = 200"
    by (simp add: hp_chain(4) [OF ok] SetFlowTableID_def)
  from before after
  have differ: "setHP2920TableMiss quiet_env fresh_sess \<noteq> (None, fresh_sess)"
    by auto
  from run contains ok tables outcomes some before after differ desc_facts(8) show ?thesis
    by simp
qed

lemma contract_hp:
  "(m, i) \<in> set (flow_mods (issued s (snd (setHP2920TableMiss e s)))) \<Longrightarrow>
     table_miss_contract m \<and> fm_command m = FlowAdd"
  by (auto simp: handler_defs obj_defs issued_def table_miss_contract_def is_wildcard_def
      bit_push_bit_iff split: option.splits sum.splits prod.splits if_splits)

lemma contract_default:
  "(m, i) \<in> set (flow_mods (issued s (snd (setDefaultTableMiss e s)))) \<Longrightarrow>
     table_miss_contract m \<and> fm_command m = FlowAdd"
  by (auto simp: handler_defs obj_defs issued_def table_miss_contract_def is_wildcard_def
      bit_push_bit_iff split: option.splits sum.splits prod.splits if_splits)

text \<open>
  Claim C5. Every flow modification that \<open>OnDescReply\<close> sends, under any profile and
  whether or not the send or a later step fails, adds a flow with a wildcard match, a
  cookie whose most significant bit (bit 63) is set, idle timeout 0, hard timeout 0 and
  priority 0.
\<close>

theorem table_miss_entry_contract:
  "\<forall>(m, i) \<in> set (flow_mods (issued s (snd (OnDescReply e v s)))).
     fm_command m = FlowAdd \<and>
     (\<exists>x. fm_match m = Some x \<and> is_wildcard x) \<and>
     bit (fm_cookie m) 63 \<and>
     fm_idle_timeout m = 0 \<and> fm_hard_timeout m = 0 \<and> fm_priority m = 0"
proof -
  have c: "table_miss_contract m \<and> fm_command m = FlowAdd"
    if "(m, i) \<in> set (flow_mods (issued s (snd (OnDescReply e v s))))" for m i
    using that contract_hp [of m i s e] contract_default [of m i s e]
    by (auto simp: OnDescReply_def setAS4600TableMiss_def issued_def split: if_splits)
  have "fm_command m = FlowAdd \<and>
     (\<exists>x. fm_match m = Some x \<and> is_wildcard x) \<and>
     bit (fm_cookie m) 63 \<and>
     fm_idle_timeout m = 0 \<and> fm_hard_timeout m = 0 \<and> fm_priority m = 0"
    if "(m, i) \<in> set (flow_mods (issued s (snd (OnDescReply e v s))))" for m i
    using c [OF that] by (cases "fm_match m") (auto simp: table_miss_contract_def)
  then show ?thesis
    by blast
qed

theorem table_miss_entry_contract_witness:
  "map (\<lambda>(m, i). (fm_command m, fm_match m, fm_cookie m, fm_idle_timeout m, fm_hard_timeout m,
          fm_priority m))
     (flow_mods (issued fresh_sess (snd (OnDescReply quiet_env hp_desc fresh_sess)))) =
   [(FlowAdd, Some [], 0x8000000000000000, 0, 0, 0),
    (FlowAdd, Some [], 0x8000000000000000, 0, 0, 0),
    (FlowAdd, Some [], 0x8000000000000000, 0, 0, 0)] \<and>
   bit (0x8000000000000000 :: u64) 63"
proof -
  note all = table_miss_entry_contract [of fresh_sess quiet_env hp_desc]
  have sent3: "map (\<lambda>(m, i). (fm_command m, fm_match m, fm_cookie m, fm_idle_timeout m,
          fm_hard_timeout m, fm_priority m))
     (flow_mods (issued fresh_sess (snd (OnDescReply quiet_env hp_desc fresh_sess)))) =
   [(FlowAdd, Some [], 0x8000000000000000, 0, 0, 0),
    (FlowAdd, Some [], 0x8000000000000000, 0, 0, 0),
    (FlowAdd, Some [], 0x8000000000000000, 0, 0, 0)]"
    by (simp add: OnDescReply_def desc_facts handler_defs obj_defs issued_def quiet_env_def
        fresh_sess_def)
  then have "\<exists>m i. (m, i) \<in> set (flow_mods (issued fresh_sess
        (snd (OnDescReply quiet_env hp_desc fresh_sess)))) \<and> fm_cookie m = 0x8000000000000000"
    by (cases "flow_mods (issued fresh_sess (snd (OnDescReply quiet_env hp_desc fresh_sess)))")
      auto
  with all have "bit (0x8000000000000000 :: u64) 63"
    by fastforce
  with sent3 show ?thesis
    by blast
qed

subsection \<open>Ports\<close>

lemma sendLLDP_dev: "dev (snd (sendLLDP e d p s)) = dev s"
  by (simp add: sendLLDP_def issue_def)

lemma port_desc_loop_above_max:
  "OFPP_MAX e < n \<Longrightarrow> ports (dev (port_desc_loop e ps s)) n = ports (dev s) n"
proof (induction ps arbitrary: s)
  case Nil
  then show ?case by simp
next
  case (Cons p ps)
  show ?case
  proof (cases "OFPP_MAX e < Number p")
    case True
    with Cons show ?thesis by simp
  next
    case False
    with Cons.prems have "n \<noteq> Number p" by auto
    with False Cons show ?thesis
      by (simp add: Let_def sendLLDP_dev AddPort_def)
  qed
qed

lemma port_desc_loop_filter:
  "port_desc_loop e ps s = port_desc_loop e (filter (\<lambda>p. \<not> OFPP_MAX e < Number p) ps) s"
  by (induction ps arbitrary: s) (simp_all add: Let_def)

lemma port_desc_loop_all_above:
  "\<forall>p \<in> set ps. OFPP_MAX e < Number p \<Longrightarrow> port_desc_loop e ps s = s"
  by (induction ps arbitrary: s) simp_all

text \<open>
  Claim C9. A port whose number is greater than \<^verbatim>\<open>OFPP_MAX\<close> leaves the device as it
  was. \<open>OnPortStatus\<close> for such a port returns \<^verbatim>\<open>nil\<close> and changes nothing.
  \<open>OnPortDescReply\<close> always returns \<^verbatim>\<open>nil\<close>; after it, the device holds under every
  number above \<^verbatim>\<open>OFPP_MAX\<close> what it held before (such a port is neither added nor
  updated); the handler does what it does on the reply without the ports above
  \<^verbatim>\<open>OFPP_MAX\<close>; and a reply with only such ports changes nothing.
\<close>

theorem reserved_ports_ignored:
  "(OFPP_MAX e < Number p \<longrightarrow> OnPortStatus e p s = (None, s)) \<and>
   fst (OnPortDescReply e ps s) = None \<and>
   (\<forall>n. OFPP_MAX e < n \<longrightarrow>
      ports (dev (snd (OnPortDescReply e ps s))) n = ports (dev s) n) \<and>
   OnPortDescReply e ps s =
     OnPortDescReply e (filter (\<lambda>p. \<not> OFPP_MAX e < Number p) ps) s \<and>
   ((\<forall>p \<in> set ps. OFPP_MAX e < Number p) \<longrightarrow> OnPortDescReply e ps s = (None, s))"
  by (simp add: OnPortStatus_def OnPortDescReply_def port_desc_loop_above_max
      port_desc_loop_filter [symmetric] port_desc_loop_all_above)

theorem reserved_ports_ignored_witness:
  "OFPP_MAX quiet_env < Number port_local \<and>
   OnPortStatus quiet_env port_local fresh_sess = (None, fresh_sess) \<and>
   ports (dev (snd (OnPortDescReply quiet_env [port_local, port_up] fresh_sess)))
     (Number port_local) = None \<and>
   OnPortDescReply quiet_env [port_local, port_up] fresh_sess =
     OnPortDescReply quiet_env [port_up] fresh_sess \<and>
   OnPortDescReply quiet_env [port_local] fresh_sess = (None, fresh_sess)"
proof -
  note two = reserved_ports_ignored [of quiet_env port_local fresh_sess "[port_local, port_up]"]
  note one = reserved_ports_ignored [of quiet_env port_local fresh_sess "[port_local]"]
  have above: "OFPP_MAX quiet_env < Number port_local"
    by (simp add: quiet_env_def port_local_def)
  have below: "\<not> OFPP_MAX quiet_env < Number port_up"
    by (simp add: quiet_env_def port_up_def)
  have empty: "ports (dev fresh_sess) (Number port_local) = None"
    by (simp add: fresh_sess_def)
  from two above have status: "OnPortStatus quiet_env port_local fresh_sess = (None, fresh_sess)"
    by blast
  from two above empty
  have kept: "ports (dev (snd (OnPortDescReply quiet_env [port_local, port_up] fresh_sess)))
      (Number port_local) = None"
    by metis
  from two above below
  have same: "OnPortDescReply quiet_env [port_local, port_up] fresh_sess =
      OnPortDescReply quiet_env [port_up] fresh_sess"
    by simp
  from above have "\<forall>p \<in> set [port_local]. OFPP_MAX quiet_env < Number p"
    by simp
  with one
  have none: "OnPortDescReply quiet_env [port_local] fresh_sess = (None, fresh_sess)"
    by blast
  from above status kept same none show ?thesis
    by blast
qed

subsection \<open>ProxyARP\<close>

lemma bytes_Compare_eq: "bytes_Compare a b = 0 \<longleftrightarrow> a = b"
  by (induction a b rule: bytes_Compare.induct) auto

lemma isARPAnnouncement_iff:
  "isARPAnnouncement a \<longleftrightarrow> IP_Equal (SPA a) (TPA a) \<and> THA a = [0, 0, 0, 0, 0, 0]"
  by (auto simp: isARPAnnouncement_def bytes_Compare_eq)

lemmas reply_defs = makeARPReply_def sendARPReply_def NewAction_def NewPacketOut_def
  new_action_def new_packet_out_def SetOutPort_def SetInPort_def SetAction_def SetData_def
  NewInPort_def NewOutPort_def in_SetController_def out_SetValue_def

lemma lab_facts:
  "Type arp_frame = 0x0806"
  "UnmarshalARP (lab_env a) (Payload arp_frame) = Inr a"
  "Operation request_known = 1" "Operation request_unknown = 1"
  "Operation announce_good = 1" "Operation announce_forged = 1"
  "\<not> isARPAnnouncement request_known" "\<not> isARPAnnouncement request_unknown"
  "isARPAnnouncement announce_good" "isARPAnnouncement announce_forged"
  by (simp_all add: arp_frame_def lab_env_def request_known_def request_unknown_def
      announce_good_def announce_forged_def isARPAnnouncement_iff IP_Equal_def host_ip_def
      asker_ip_def)

text \<open>
  Claim C7. A packet-in carries an ordinary ARP request: an Ethernet frame of type 0x0806
  whose payload decodes to an ARP packet of operation code 1 that is not an announcement,
  and the directory answers the query for the target protocol address without error.
  If the directory does not know the address, the handler sends nothing, forwards nothing
  and returns \<^verbatim>\<open>nil\<close>. If it knows a MAC (and the codecs and the factory of the ingress
  device do not fail), the handler sends exactly one message, to the ingress device: a
  packet-out whose in-port is the controller, whose action outputs to the ingress port's
  number, and whose data is the encoding of the Ethernet frame from the directory's MAC to
  the requester's MAC that carries the ARP reply with the directory's MAC as sender
  hardware address; it forwards nothing.
\<close>

theorem arp_request_answered_from_directory:
  assumes "Type eth = 0x0806"
    and "UnmarshalARP e (Payload eth) = Inr a"
    and "Operation a = 1"
    and "\<not> isARPAnnouncement a"
    and "FindMAC e (TPA a) = (mac, ok, None)"
  shows "(\<not> ok \<longrightarrow>
            OnPacketIn e ing eth = (None, [Lookup (TPA a)]) \<and>
            outbound (snd (OnPacketIn e ing eth)) = [] \<and>
            forwarded (snd (OnPacketIn e ing eth)) = []) \<and>
         (ok \<and>
          MarshalARP e \<lparr>Operation = 2, SHA = mac, SPA = TPA a, THA = SHA a, TPA = SPA a\<rparr> =
            Inr reply \<and>
          MarshalEthernet e \<lparr>SrcMAC = mac, DstMAC = SHA a, Type = 0x0806, Payload = reply\<rparr> =
            Inr frame \<and>
          DeviceFactory e (Device ing) KAction = None \<and>
          DeviceFactory e (Device ing) KPacketOut = None \<longrightarrow>
            outbound (snd (OnPacketIn e ing eth)) =
              [(Device ing,
                \<lparr>po_in_port = InController,
                 po_action = Some \<lparr>act_out_port = Some (OutValue (PortNumber ing))\<rparr>,
                 po_data = frame\<rparr>)] \<and>
            forwarded (snd (OnPacketIn e ing eth)) = [] \<and>
            fst (OnPacketIn e ing eth) =
              SendMessage e (Device ing)
                \<lparr>po_in_port = InController,
                 po_action = Some \<lparr>act_out_port = Some (OutValue (PortNumber ing))\<rparr>,
                 po_data = frame\<rparr>)"
  using assms
  by (simp add: OnPacketIn_def reply_defs NewARPReply_def Let_def)

theorem arp_request_answered_from_directory_witness:
  "outbound (snd (OnPacketIn (lab_env request_known) port3 arp_frame)) =
     [(''sw1'',
       \<lparr>po_in_port = InController, po_action = Some \<lparr>act_out_port = Some (OutValue 3)\<rparr>,
        po_data = asker_mac @ host_mac @ host_mac @ host_ip @ asker_mac @ asker_ip\<rparr>)] \<and>
   forwarded (snd (OnPacketIn (lab_env request_known) port3 arp_frame)) = [] \<and>
   OnPacketIn (lab_env request_unknown) port3 arp_frame = (None, [Lookup [10, 0, 0, 77]])"
proof -
  have known: "FindMAC (lab_env request_known) (TPA request_known) = (host_mac, True, None)"
    by (simp add: lab_env_def request_known_def)
  have unknown: "FindMAC (lab_env request_unknown) (TPA request_unknown) = ([], False, None)"
    by (simp add: lab_env_def request_unknown_def host_ip_def)
  have codecs:
    "MarshalARP (lab_env request_known)
       \<lparr>Operation = 2, SHA = host_mac, SPA = TPA request_known, THA = SHA request_known,
        TPA = SPA request_known\<rparr> = Inr (host_mac @ host_ip @ asker_mac @ asker_ip)"
    "MarshalEthernet (lab_env request_known)
       \<lparr>SrcMAC = host_mac, DstMAC = SHA request_known, Type = 0x0806,
        Payload = host_mac @ host_ip @ asker_mac @ asker_ip\<rparr> =
       Inr (asker_mac @ host_mac @ host_mac @ host_ip @ asker_mac @ asker_ip)"
    "DeviceFactory (lab_env request_known) (Device port3) KAction = None"
    "DeviceFactory (lab_env request_known) (Device port3) KPacketOut = None"
    by (simp_all add: lab_env_def request_known_def)
  from arp_request_answered_from_directory
    [OF lab_facts(1) lab_facts(2) lab_facts(3) lab_facts(7) known,
      where ing = port3 and reply = "host_mac @ host_ip @ asker_mac @ asker_ip"
        and frame = "asker_mac @ host_mac @ host_mac @ host_ip @ asker_mac @ asker_ip"]
    codecs
  have "outbound (snd (OnPacketIn (lab_env request_known) port3 arp_frame)) =
      [(Device port3,
        \<lparr>po_in_port = InController,
         po_action = Some \<lparr>act_out_port = Some (OutValue (PortNumber port3))\<rparr>,
         po_data = asker_mac @ host_mac @ host_mac @ host_ip @ asker_mac @ asker_ip\<rparr>)] \<and>
    forwarded (snd (OnPacketIn (lab_env request_known) port3 arp_frame)) = []"
    by blast
  moreover
  from arp_request_answered_from_directory
    [OF lab_facts(1) lab_facts(2) lab_facts(4) lab_facts(8) unknown, where ing = port3]
  have "OnPacketIn (lab_env request_unknown) port3 arp_frame =
      (None, [Lookup (TPA request_unknown)])"
    by blast
  ultimately show ?thesis
    by (simp add: port3_def request_unknown_def)
qed

text \<open>
  Claim C8. A packet-in carries an ARP announcement: operation code 1, sender protocol
  address equal to the target protocol address, target hardware address all-zero. The
  event is handed to the next stage, unchanged, exactly when the directory's query for the
  announced address returns no error, finds a MAC, and that MAC is the announcement's
  sender hardware address; then the handler returns what the next stage returns.
  Otherwise nothing is forwarded and the handler returns the directory's error, if any,
  else \<^verbatim>\<open>nil\<close>. In no case is a message sent.
\<close>

theorem arp_announcement_forwarded_iff_trusted:
  assumes "Type eth = 0x0806"
    and "UnmarshalARP e (Payload eth) = Inr a"
    and "Operation a = 1"
    and "IP_Equal (SPA a) (TPA a)"
    and "THA a = [0, 0, 0, 0, 0, 0]"
    and "FindMAC e (SPA a) = (mac, ok, err)"
  shows "forwarded (snd (OnPacketIn e ing eth)) =
           (if err = None \<and> ok \<and> mac = SHA a then [(ing, eth)] else []) \<and>
         outbound (snd (OnPacketIn e ing eth)) = [] \<and>
         fst (OnPacketIn e ing eth) =
           (if err = None \<and> ok \<and> mac = SHA a then NextOnPacketIn e ing eth else err)"
  using assms
  by (auto simp: OnPacketIn_def isARPAnnouncement_iff isValidARPAnnouncement_def
      bytes_Compare_eq split: option.splits)

theorem arp_announcement_forwarded_iff_trusted_witness:
  "forwarded (snd (OnPacketIn (lab_env announce_good) port3 arp_frame)) = [(port3, arp_frame)] \<and>
   forwarded (snd (OnPacketIn (lab_env announce_forged) port3 arp_frame)) = [] \<and>
   outbound (snd (OnPacketIn (lab_env announce_forged) port3 arp_frame)) = [] \<and>
   fst (OnPacketIn (lab_env announce_forged) port3 arp_frame) = None"
proof -
  have good: "IP_Equal (SPA announce_good) (TPA announce_good)"
      "THA announce_good = [0, 0, 0, 0, 0, 0]"
      "FindMAC (lab_env announce_good) (SPA announce_good) = (host_mac, True, None)"
      "host_mac = SHA announce_good"
    by (simp_all add: announce_good_def IP_Equal_def lab_env_def)
  have forged: "IP_Equal (SPA announce_forged) (TPA announce_forged)"
      "THA announce_forged = [0, 0, 0, 0, 0, 0]"
      "FindMAC (lab_env announce_forged) (SPA announce_forged) = (host_mac, True, None)"
      "host_mac \<noteq> SHA announce_forged"
    by (simp_all add: announce_forged_def IP_Equal_def lab_env_def host_mac_def asker_mac_def)
  from arp_announcement_forwarded_iff_trusted
    [OF lab_facts(1) lab_facts(2) lab_facts(5) good(1) good(2) good(3), of port3] good(4)
  have "forwarded (snd (OnPacketIn (lab_env announce_good) port3 arp_frame)) =
      [(port3, arp_frame)]"
    by simp
  moreover
  from arp_announcement_forwarded_iff_trusted
    [OF lab_facts(1) lab_facts(2) lab_facts(6) forged(1) forged(2) forged(3), of port3]
    forged(4)
  have "forwarded (snd (OnPacketIn (lab_env announce_forged) port3 arp_frame)) = [] \<and>
    outbound (snd (OnPacketIn (lab_env announce_forged) port3 arp_frame)) = [] \<and>
    fst (OnPacketIn (lab_env announce_forged) port3 arp_frame) = None"
    by simp
  ultimately show ?thesis
    by blast
qed

text \<open>
  Claim C10. For a packet-in classified as an ARP announcement the handler sends no
  message, whatever the directory holds: the only query it makes of the directory is the
  validation of the sender protocol address, and the query of the target protocol address
  that drives the synthesis of a reply is not reached.
\<close>

theorem arp_announcement_never_answered:
  assumes "Type eth = 0x0806"
    and "UnmarshalARP e (Payload eth) = Inr a"
    and "Operation a = 1"
    and "isARPAnnouncement a"
  shows "outbound (snd (OnPacketIn e ing eth)) = [] \<and>
         lookups (snd (OnPacketIn e ing eth)) = [SPA a]"
  using assms
  by (auto simp: OnPacketIn_def isValidARPAnnouncement_def split: option.splits prod.splits)

theorem arp_announcement_never_answered_witness:
  "fst (FindMAC (lab_env announce_good) (TPA announce_good)) = host_mac \<and>
   fst (snd (FindMAC (lab_env announce_good) (TPA announce_good))) \<and>
   outbound (snd (OnPacketIn (lab_env announce_good) port3 arp_frame)) = [] \<and>
   lookups (snd (OnPacketIn (lab_env announce_good) port3 arp_frame)) = [host_ip]"
proof -
  have known: "FindMAC (lab_env announce_good) (TPA announce_good) = (host_mac, True, None)"
    by (simp add: lab_env_def announce_good_def)
  from arp_announcement_never_answered
    [OF lab_facts(1) lab_facts(2) lab_facts(5) lab_facts(9), of port3]
  have "outbound (snd (OnPacketIn (lab_env announce_good) port3 arp_frame)) = [] \<and>
    lookups (snd (OnPacketIn (lab_env announce_good) port3 arp_frame)) = [SPA announce_good]"
    by simp
  with known show ?thesis
    by (simp add: announce_good_def)
qed

end
